theory Spec2Isabelle
  imports Complex_Main "HOL-Library.AList"
begin

section \<open>Python values, exceptions and dictionaries\<close>

text \<open>
  The launcher is Python. Values that travel through the configuration code are the
  values \<open>json.load\<close> can produce. A Python \<open>float\<close> is either a finite number
  (an exact rational here; every IEEE double is one) or one of the three special values;
  \<open>json.load\<close> produces \<open>inf\<close> for a literal such as \<open>1e999\<close> and accepts
  \<open>NaN\<close> and \<open>Infinity\<close>.
  A string is a list of characters with code points below 256.
\<close>

datatype pyfloat = Finite rat | PosInf | NegInf | NaN

datatype pyval =
    PNone
  | PBool bool
  | PInt int
  | PFloat pyfloat
  | PStr string
  | PList "pyval list"
  | PDict "(string \<times> pyval) list"

text \<open>
  A \<open>dict\<close> is an association list with distinct keys in insertion order:
  \<open>d[k] = v\<close> replaces the value of an existing key in place and appends a new key at
  the end, which is \<open>AList.update\<close>.
\<close>

type_synonym pydict = "(string \<times> pyval) list"

definition dict_get :: "pydict \<Rightarrow> string \<Rightarrow> pyval \<Rightarrow> pyval" where
  \<comment> \<open>\<open>d.get(k, default)\<close>\<close>
  "dict_get d k dflt = (case map_of d k of None \<Rightarrow> dflt | Some v \<Rightarrow> v)"

definition dict_set :: "pydict \<Rightarrow> string \<Rightarrow> pyval \<Rightarrow> pydict" where
  \<comment> \<open>\<open>d[k] = v\<close>\<close>
  "dict_set d k v = AList.update k v d"

text \<open>
  The exception classes that occur. \<open>KeyboardInterrupt\<close> stands for the classes that
  derive from \<open>BaseException\<close> but not from \<open>Exception\<close>; the classes of
  \<open>requests.exceptions\<close> derive from \<open>IOError\<close>, which is \<open>OSError\<close>.
\<close>

datatype exn =
    SSLError
  | ConnectionError
  | Timeout
  | HTTPError
  | OSError
  | JSONDecodeError
  | UnicodeDecodeError
  | UnicodeEncodeError
  | ValueError
  | OverflowError
  | KeyError
  | TypeError
  | IndexError
  | VersionNotFound
  | KeyboardInterrupt

fun is_Exception :: "exn \<Rightarrow> bool" where
  "is_Exception KeyboardInterrupt = False"
| "is_Exception _ = True"

fun is_IOError :: "exn \<Rightarrow> bool" where
  "is_IOError SSLError = True"
| "is_IOError ConnectionError = True"
| "is_IOError Timeout = True"
| "is_IOError HTTPError = True"
| "is_IOError OSError = True"
| "is_IOError _ = False"

fun is_network_error :: "exn \<Rightarrow> bool" where
  \<comment> \<open>timeout, connection error, TLS error\<close>
  "is_network_error SSLError = True"
| "is_network_error ConnectionError = True"
| "is_network_error Timeout = True"
| "is_network_error _ = False"

subsection \<open>Numbers\<close>

fun num_val :: "pyval \<Rightarrow> pyfloat option" where
  \<comment> \<open>the numeric value when \<open>isinstance(v, (int, float))\<close>; \<open>bool\<close> is a subclass of \<open>int\<close>\<close>
  "num_val (PBool b) = Some (Finite (if b then 1 else 0))"
| "num_val (PInt i) = Some (Finite (of_int i))"
| "num_val (PFloat f) = Some f"
| "num_val _ = None"

fun float_le :: "pyfloat \<Rightarrow> pyfloat \<Rightarrow> bool" where
  \<comment> \<open>\<open>a <= b\<close>; every comparison with NaN is false\<close>
  "float_le NaN _ = False"
| "float_le _ NaN = False"
| "float_le NegInf _ = True"
| "float_le _ PosInf = True"
| "float_le (Finite a) (Finite b) = (a \<le> b)"
| "float_le PosInf _ = False"
| "float_le _ NegInf = False"

definition ram_in_range :: "pyval \<Rightarrow> bool" where
  \<comment> \<open>\<open>isinstance(ram, (int, float)) and 2 <= ram <= 32\<close>\<close>
  "ram_in_range ram =
     (case num_val ram of
        None \<Rightarrow> False
      | Some x \<Rightarrow> float_le (Finite 2) x \<and> float_le x (Finite 32))"

fun py_int :: "pyval \<Rightarrow> exn + int" where
  \<comment> \<open>\<open>int(v)\<close> for a value that is an \<open>int\<close> or a \<open>float\<close>: truncation towards zero\<close>
  "py_int (PBool b) = Inr (if b then 1 else 0)"
| "py_int (PInt i) = Inr i"
| "py_int (PFloat (Finite q)) = Inr (if 0 \<le> q then \<lfloor>q\<rfloor> else \<lceil>q\<rceil>)"
| "py_int (PFloat NaN) = Inl ValueError"
| "py_int (PFloat PosInf) = Inl OverflowError"
| "py_int (PFloat NegInf) = Inl OverflowError"
| "py_int _ = Inl TypeError"

subsection \<open>Strings\<close>

definition py_isspace :: "char \<Rightarrow> bool" where
  \<comment> \<open>the whitespace characters of \<open>str.strip()\<close> below code point 256\<close>
  "py_isspace c =
     (let n = (of_char c :: nat)
      in (9 \<le> n \<and> n \<le> 13) \<or> (28 \<le> n \<and> n \<le> 32) \<or> n = 133 \<or> n = 160)"

definition py_strip :: "string \<Rightarrow> string" where
  "py_strip s = rev (dropWhile py_isspace (rev (dropWhile py_isspace s)))"

definition endswith :: "string \<Rightarrow> string \<Rightarrow> bool" where
  "endswith s suffix = (length suffix \<le> length s \<and> drop (length s - length suffix) s = suffix)"

function str_nat :: "nat \<Rightarrow> string" where
  \<comment> \<open>the decimal digits of a natural number\<close>
  "str_nat n =
     (if n < 10 then [char_of (48 + n)]
      else str_nat (n div 10) @ [char_of (48 + n mod 10)])"
  by pat_completeness auto
termination
  by (relation "measure id") auto

definition py_str_int :: "int \<Rightarrow> string" where
  \<comment> \<open>an \<open>int\<close> inside an f-string\<close>
  "py_str_int i = (if i < 0 then CHR ''-'' # str_nat (nat (- i)) else str_nat (nat i))"


section \<open>main.py: ConfigManager\<close>

definition DEFAULT_CONFIG :: pydict where
  "DEFAULT_CONFIG =
     [(''ram'', PInt 4),
      (''skin'', PStr ''''),
      (''nickname'', PStr ''Player''),
      (''theme'', PStr ''dark''),
      (''auto_update'', PBool True),
      (''java_path'', PStr ''''),
      (''window_width'', PInt 1200),
      (''window_height'', PInt 800)]"

text \<open>
  What reading a path gives: the file is missing, \<open>open\<close> fails, the bytes are not
  UTF-8, the text is not JSON, or \<open>json.load\<close> returns a value. \<open>json.dump\<close>
  followed by \<open>json.load\<close> returns the value written, so a file written by
  \<open>json.dump\<close> holds the value itself.
\<close>

datatype file_state = Missing | Unreadable | Undecodable | Malformed | Parsed pyval

type_synonym filesystem = "string \<Rightarrow> file_state"

definition read_json :: "filesystem \<Rightarrow> string \<Rightarrow> exn + pyval" where
  \<comment> \<open>\<open>with open(path, "r", encoding="utf-8") as f: json.load(f)\<close> on an existing path\<close>
  "read_json fs path =
     (case fs path of
        Missing \<Rightarrow> Inl OSError
      | Unreadable \<Rightarrow> Inl OSError
      | Undecodable \<Rightarrow> Inl UnicodeDecodeError
      | Malformed \<Rightarrow> Inl JSONDecodeError
      | Parsed v \<Rightarrow> Inr v)"

fun copy_str_keys :: "string list \<Rightarrow> pydict \<Rightarrow> pydict \<Rightarrow> pydict" where
  \<comment> \<open>main.py 70-72\<close>
  "copy_str_keys [] config validated_config = validated_config"
| "copy_str_keys (key # keys) config validated_config =
     copy_str_keys keys config
       (case map_of config key of
          Some (PStr s) \<Rightarrow> dict_set validated_config key (PStr s)
        | _ \<Rightarrow> validated_config)"

fun copy_bool_keys :: "string list \<Rightarrow> pydict \<Rightarrow> pydict \<Rightarrow> pydict" where
  \<comment> \<open>main.py 74-76\<close>
  "copy_bool_keys [] config validated_config = validated_config"
| "copy_bool_keys (key # keys) config validated_config =
     copy_bool_keys keys config
       (case map_of config key of
          Some (PBool b) \<Rightarrow> dict_set validated_config key (PBool b)
        | _ \<Rightarrow> validated_config)"

fun copy_window_keys :: "string list \<Rightarrow> pydict \<Rightarrow> pydict \<Rightarrow> exn + pydict" where
  \<comment> \<open>main.py 78-80; \<open>int(config[key])\<close> raises on a float that is not finite\<close>
  "copy_window_keys [] config validated_config = Inr validated_config"
| "copy_window_keys (key # keys) config validated_config =
     (case map_of config key of
        None \<Rightarrow> copy_window_keys keys config validated_config
      | Some v \<Rightarrow>
          (case num_val v of
             None \<Rightarrow> copy_window_keys keys config validated_config
           | Some _ \<Rightarrow>
               (case py_int v of
                  Inl e \<Rightarrow> Inl e
                | Inr i \<Rightarrow>
                    copy_window_keys keys config
                      (dict_set validated_config key (PInt (max 600 i))))))"

definition validate_ram :: "pydict \<Rightarrow> pydict \<Rightarrow> pydict" where
  \<comment> \<open>main.py 54-57\<close>
  "validate_ram config validated_config =
     (let ram = dict_get config ''ram'' (PInt 4)
      in if ram_in_range ram then dict_set validated_config ''ram'' ram
         else validated_config)"

definition validate_skin :: "pydict \<Rightarrow> pydict \<Rightarrow> pydict" where
  \<comment> \<open>main.py 59-62\<close>
  "validate_skin config validated_config =
     (let skin = dict_get config ''skin'' (PStr [])
      in case skin of
           PStr s \<Rightarrow> dict_set validated_config ''skin'' skin
         | _ \<Rightarrow> validated_config)"

definition validate_nickname :: "pydict \<Rightarrow> pydict \<Rightarrow> pydict" where
  \<comment> \<open>main.py 64-67\<close>
  "validate_nickname config validated_config =
     (let nickname = dict_get config ''nickname'' (PStr ''Player'')
      in case nickname of
           PStr s \<Rightarrow>
             (if length (py_strip s) > 0
              then dict_set validated_config ''nickname'' (PStr (py_strip s))
              else validated_config)
         | _ \<Rightarrow> validated_config)"

definition validate_loaded :: "pydict \<Rightarrow> exn + pydict" where
  \<comment> \<open>main.py 51-82, for \<open>config\<close> a \<open>dict\<close>\<close>
  "validate_loaded config =
     (let validated_config = DEFAULT_CONFIG;
          validated_config = validate_ram config validated_config;
          validated_config = validate_skin config validated_config;
          validated_config = validate_nickname config validated_config;
          validated_config = copy_str_keys [''theme'', ''java_path''] config validated_config;
          validated_config = copy_bool_keys [''auto_update''] config validated_config
      in copy_window_keys [''window_width'', ''window_height''] config validated_config)"

definition load_config_body :: "filesystem \<Rightarrow> string \<Rightarrow> exn + pydict option" where
  \<comment> \<open>the \<open>try\<close> block, main.py 42-82; \<open>None\<close> when it falls through without \<open>return\<close>\<close>
  "load_config_body fs config_path =
     (if fs config_path = Missing then Inr None
      else
        (case read_json fs config_path of
           Inl e \<Rightarrow> Inl e
         | Inr (PDict config) \<Rightarrow> map_sum id Some (validate_loaded config)
         | Inr _ \<Rightarrow> Inr (Some DEFAULT_CONFIG)))"

definition load_config :: "filesystem \<Rightarrow> string \<Rightarrow> exn + pydict" where
  \<comment> \<open>\<open>ConfigManager.load_config\<close>, main.py 38-87; \<open>Inl\<close> is an exception that leaves it\<close>
  "load_config fs config_path =
     (case load_config_body fs config_path of
        Inr (Some validated_config) \<Rightarrow> Inr validated_config
      | Inr None \<Rightarrow> Inr DEFAULT_CONFIG
      | Inl e \<Rightarrow>
          (if e = JSONDecodeError \<or> is_IOError e \<or> e = UnicodeDecodeError
           then Inr DEFAULT_CONFIG
           else Inl e))"




text \<open>
  What the disk does when \<open>save_config\<close> writes: creating the directory or opening the
  file fails (nothing is changed), writing fails after \<open>open(..., "w")\<close> has truncated
  the file, or the document is written. \<open>copy_ok\<close> says whether \<open>shutil.copy2\<close> of the
  skin succeeds. Different path strings can name one file (\<open>config.json\<close> and
  \<open>./config.json\<close>): \<open>resolve\<close> gives the file a path names, and writing to a path
  changes what every path naming that file reads.
\<close>

datatype write_outcome = WriteOk | OpenFails | WriteFails

record disk_io =
  resolve :: "string \<Rightarrow> string"
  write_outcome :: write_outcome
  copy_ok :: bool






definition no_files :: filesystem where
  "no_files = (\<lambda>path. Missing)"


section \<open>launcher.py\<close>

text \<open>
  The module-level state of launcher.py and everything \<open>launch_game\<close> changes outside
  of it, as one record that every function takes and returns. \<open>is_game_running\<close>,
  \<open>game_process\<close> and \<open>lock_held\<close> (the state of \<open>game_lock\<close>) are the session
  state. \<open>dirs\<close> holds the directories that exist, each with its files by name. The
  remaining fields are traces of effects: the calls made to the installer library, the
  artifact URLs requested, the commands spawned, the lines written to \<open>latest.log\<close>,
  and the calls of \<open>logger\<close>, each recorded as its level and its line in launcher.py.
\<close>

datatype level = INFO | WARNING | ERROR

datatype install_call = InstallFabric string string | InstallVersion string

record world =
  is_game_running :: bool
  game_process :: "string list option"
  lock_held :: bool
  dirs :: "string \<rightharpoonup> (string \<rightharpoonup> string)"
  install_calls :: "install_call list"
  downloads :: "string list"
  spawned :: "string list list"
  log_file :: "string list"
  log :: "(level \<times> nat) list"

definition log_at :: "level \<Rightarrow> nat \<Rightarrow> world \<Rightarrow> world" where
  "log_at lvl line w = w\<lparr>log := log w @ [(lvl, line)]\<rparr>"

text \<open>
  One run of the child process, as the drain loop of \<open>launch_game\<close> observes it:
  \<open>poll()\<close> at the head of the loop returns an exit code (\<open>Exit\<close>), or it returns
  \<open>None\<close> and \<open>readline()\<close> returns a string, after which a second \<open>poll()\<close>
  gives its answer (\<open>Read\<close>), or reading raises (\<open>ReadError\<close>). A value of this type
  is a run that ends; a child that never exits has none.
\<close>

datatype run = Exit int | Read string "int option" run | ReadError exn

record mod_file =
  filename :: string
  url :: string

record mod_version =
  game_versions :: "string list"
  loaders :: "string list"
  files :: "mod_file list"

text \<open>
  What the world outside answers: the result of each call that leaves the program.
  \<open>registry\<close> is the outcome of the three lines that query the package registry
  (\<open>requests.get\<close>, \<open>raise_for_status\<close>, \<open>json\<close>).
\<close>

record env =
  makedirs_error :: "exn option"
  registry :: "exn + mod_version list"
  download :: "string \<Rightarrow> exn + string"
  jar_write :: write_outcome
  config_files :: filesystem
  latest_loader :: "exn + string"
  install_fabric_error :: "exn option"
  install_version_error :: "string \<Rightarrow> exn option"
  minecraft_command :: "string \<Rightarrow> pydict \<Rightarrow> exn + string list"
  popen :: "string list \<Rightarrow> exn + run"
  open_log_error :: "exn option"

definition USERNAME :: string where "USERNAME = ''TheDocingEast''"
definition MINECRAFT_VERSION :: string where "MINECRAFT_VERSION = ''1.20.1''"
definition MEMORY_GB :: int where "MEMORY_GB = 4"
definition MINECRAFT_DIR :: string where "MINECRAFT_DIR = ''minecraft''"
definition LOADER :: string where "LOADER = ''fabric''"

definition then_log :: "level \<Rightarrow> nat \<Rightarrow> exn option \<times> world \<Rightarrow> exn option \<times> world" where
  \<comment> \<open>the logging call that follows a statement, reached unless the statement raised\<close>
  "then_log lvl line r = (case fst r of None \<Rightarrow> (None, log_at lvl line (snd r)) | Some e \<Rightarrow> r)"

definition except_Exception :: "level \<Rightarrow> nat \<Rightarrow> exn option \<times> world \<Rightarrow> exn option \<times> world" where
  \<comment> \<open>\<open>except Exception as e: logger.<level>(...)\<close> around a block that left with \<open>r\<close>\<close>
  "except_Exception lvl line r =
     (case fst r of
        None \<Rightarrow> r
      | Some e \<Rightarrow> if is_Exception e then (None, log_at lvl line (snd r)) else r)"

subsection \<open>ensure_customskinloader\<close>

definition path_join :: "string \<Rightarrow> string \<Rightarrow> string" where
  "path_join d name = d @ ''/'' @ name"

definition makedirs :: "string \<Rightarrow> world \<Rightarrow> world" where
  \<comment> \<open>\<open>os.makedirs(d, exist_ok=True)\<close>\<close>
  "makedirs d w = (case dirs w d of None \<Rightarrow> w\<lparr>dirs := (dirs w)(d \<mapsto> Map.empty)\<rparr> | Some _ \<Rightarrow> w)"

definition isfile :: "world \<Rightarrow> string \<Rightarrow> string \<Rightarrow> bool" where
  \<comment> \<open>\<open>os.path.isfile(os.path.join(d, name))\<close>\<close>
  "isfile w d name = (case dirs w d of None \<Rightarrow> False | Some fs \<Rightarrow> name \<in> dom fs)"

definition write_file :: "string \<Rightarrow> string \<Rightarrow> string \<Rightarrow> world \<Rightarrow> world" where
  \<comment> \<open>the file \<open>name\<close> of the existing directory \<open>d\<close> gets the content\<close>
  "write_file d name content w =
     (case dirs w d of
        None \<Rightarrow> w
      | Some fs \<Rightarrow> w\<lparr>dirs := (dirs w)(d \<mapsto> fs(name \<mapsto> content))\<rparr>)"

definition save_jar :: "env \<Rightarrow> string \<Rightarrow> string \<Rightarrow> string \<Rightarrow> world \<Rightarrow> exn option \<times> world" where
  \<comment> \<open>launcher.py 161-162: \<open>open(jar_path, 'wb')\<close> raises when the directory is missing
      or the file cannot be created; a write that fails after it leaves the file that
      \<open>open\<close> created, without the content\<close>
  "save_jar en mods_dir name content w =
     (case dirs w mods_dir of
        None \<Rightarrow> (Some OSError, w)
      | Some fs \<Rightarrow>
          (case jar_write en of
             OpenFails \<Rightarrow> (Some OSError, w)
           | WriteFails \<Rightarrow> (Some OSError, write_file mods_dir name [] w)
           | WriteOk \<Rightarrow> (None, write_file mods_dir name content w)))"

definition install_jar :: "env \<Rightarrow> string \<Rightarrow> mod_file \<Rightarrow> world \<Rightarrow> exn option \<times> world" where
  \<comment> \<open>launcher.py 156-166, for the first file whose name ends in \<open>.jar\<close>\<close>
  "install_jar en mods_dir file w =
     (let jar_url = url file
      in if \<not> isfile w mods_dir (filename file)
         then
           (let w = log_at INFO 159 w;
                w = w\<lparr>downloads := downloads w @ [jar_url]\<rparr>
            in case download en jar_url of
                 Inl e \<Rightarrow> (Some e, w)
               | Inr content \<Rightarrow>
                   then_log INFO 163 (save_jar en mods_dir (filename file) content w))
         else (None, log_at INFO 165 w))"

fun scan_files :: "env \<Rightarrow> string \<Rightarrow> mod_file list \<Rightarrow> world \<Rightarrow> (exn option \<times> world) option" where
  \<comment> \<open>the loop of launcher.py 154-166; \<open>None\<close> when it ends without \<open>return\<close>\<close>
  "scan_files en mods_dir [] w = None"
| "scan_files en mods_dir (file # rest) w =
     (if endswith (filename file) ''.jar'' then Some (install_jar en mods_dir file w)
      else scan_files en mods_dir rest w)"

fun scan_versions ::
  "env \<Rightarrow> string \<Rightarrow> string \<Rightarrow> string \<Rightarrow> mod_version list \<Rightarrow> world \<Rightarrow> exn option \<times> world" where
  \<comment> \<open>the loop of launcher.py 152-167\<close>
  "scan_versions en mods_dir mc_version loader [] w = (None, log_at ERROR 167 w)"
| "scan_versions en mods_dir mc_version loader (v # rest) w =
     (if mc_version \<in> set (game_versions v) \<and> loader \<in> set (loaders v)
      then
        (case scan_files en mods_dir (files v) w of
           Some r \<Rightarrow> r
         | None \<Rightarrow> scan_versions en mods_dir mc_version loader rest w)
      else scan_versions en mods_dir mc_version loader rest w)"

definition ensure_customskinloader ::
  "env \<Rightarrow> string \<Rightarrow> string \<Rightarrow> string \<Rightarrow> world \<Rightarrow> exn option \<times> world" where
  \<comment> \<open>launcher.py 142-169; the first component is an exception that leaves the function\<close>
  "ensure_customskinloader en minecraft_dir mc_version loader w =
     (let mods_dir = path_join minecraft_dir ''mods''
      in case makedirs_error en of
           Some e \<Rightarrow> (Some e, w)
         | None \<Rightarrow>
             (let w = makedirs mods_dir w;
                  w = log_at INFO 148 w
              in except_Exception ERROR 169
                   (case registry en of
                      Inl e \<Rightarrow> (Some e, w)
                    | Inr versions \<Rightarrow> scan_versions en mods_dir mc_version loader versions w)))"

definition select_artifact :: "string \<Rightarrow> string \<Rightarrow> mod_version list \<Rightarrow> mod_file option" where
  \<comment> \<open>the selection as the specification words it: the first record whose game versions
      and loaders match and whose files contain a name ending in \<open>.jar\<close>, and in that
      record the first such file\<close>
  "select_artifact mc_version loader versions =
     (case find (\<lambda>v. mc_version \<in> set (game_versions v) \<and> loader \<in> set (loaders v)
                      \<and> list_ex (\<lambda>f. endswith (filename f) ''.jar'') (files v)) versions of
        None \<Rightarrow> None
      | Some v \<Rightarrow> find (\<lambda>f. endswith (filename f) ''.jar'') (files v))"

subsection \<open>get_fabric_loader_version_safe\<close>

definition FALLBACK_FABRIC_VERSIONS :: "string list" where
  "FALLBACK_FABRIC_VERSIONS = [''0.15.11'', ''0.15.10'', ''0.15.9'', ''0.15.7'', ''0.14.25'']"

fun first_fallback :: "string list \<Rightarrow> world \<Rightarrow> string option \<times> world" where
  \<comment> \<open>the loop of launcher.py 193-198: its body logs and returns\<close>
  "first_fallback [] w = (None, w)"
| "first_fallback (version # rest) w = (Some version, log_at INFO 195 w)"

definition get_fabric_loader_version_safe :: "env \<Rightarrow> world \<Rightarrow> (exn + string) \<times> world" where
  \<comment> \<open>launcher.py 171-203; \<open>Inl\<close> is an exception that leaves the function\<close>
  "get_fabric_loader_version_safe en w =
     (let w = log_at INFO 183 w
      in case latest_loader en of
           Inr fabric_loader \<Rightarrow> (Inr fabric_loader, log_at INFO 185 w)
         | Inl e \<Rightarrow>
             (if is_Exception e
              then
                (let w = log_at INFO 190 (log_at WARNING 189 w)
                 in case first_fallback FALLBACK_FABRIC_VERSIONS w of
                      (Some version, w) \<Rightarrow> (Inr version, w)
                    | (None, w) \<Rightarrow>
                        (case FALLBACK_FABRIC_VERSIONS of
                           [] \<Rightarrow> (Inl IndexError, w)
                         | fallback_version # _ \<Rightarrow> (Inr fallback_version, log_at INFO 202 w)))
              else (Inl e, w)))"

subsection \<open>launch_game\<close>

definition then_do ::
  "exn option \<times> world \<Rightarrow> (world \<Rightarrow> exn option \<times> world) \<Rightarrow> exn option \<times> world" where
  \<comment> \<open>the next statement runs unless an exception is on its way out\<close>
  "then_do r next_step = (case fst r of Some e \<Rightarrow> r | None \<Rightarrow> next_step (snd r))"

definition then_with ::
  "(exn + 'a) \<times> world \<Rightarrow> ('a \<Rightarrow> world \<Rightarrow> exn option \<times> world) \<Rightarrow> exn option \<times> world" where
  "then_with r next_step =
     (case fst r of Inl e \<Rightarrow> (Some e, snd r) | Inr x \<Rightarrow> next_step x (snd r))"

definition read_username :: "env \<Rightarrow> world \<Rightarrow> exn option \<times> world" where
  \<comment> \<open>launcher.py 220-227; the name is only logged\<close>
  "read_username en w =
     (case load_config (config_files en) ''config.json'' of
        Inr config_data \<Rightarrow> (None, log_at INFO 227 w)
      | Inl e \<Rightarrow>
          (if is_Exception e then (None, log_at INFO 227 (log_at WARNING 225 w))
           else (Some e, w)))"

definition fabric_version_id :: "string \<Rightarrow> string" where
  \<comment> \<open>\<open>f"fabric-loader-{fabric_loader}-{MINECRAFT_VERSION}"\<close>\<close>
  "fabric_version_id fabric_loader = ''fabric-loader-'' @ fabric_loader @ ''-'' @ MINECRAFT_VERSION"

definition install_fabric_step :: "env \<Rightarrow> string \<Rightarrow> world \<Rightarrow> exn option \<times> world" where
  \<comment> \<open>launcher.py 234-247\<close>
  "install_fabric_step en fabric_loader w =
     (let w = w\<lparr>install_calls :=
                  install_calls w @ [InstallFabric MINECRAFT_VERSION fabric_loader]\<rparr>
      in case install_fabric_error en of
           None \<Rightarrow> (None, log_at INFO 241 w)
         | Some e \<Rightarrow>
             (if is_network_error e then (None, log_at INFO 245 (log_at WARNING 244 w))
              else if is_Exception e then (None, log_at WARNING 247 w)
              else (Some e, w)))"

definition install_minecraft_step :: "env \<Rightarrow> string \<Rightarrow> world \<Rightarrow> exn option \<times> world" where
  \<comment> \<open>launcher.py 249-261\<close>
  "install_minecraft_step en fabric_loader w =
     (let w = w\<lparr>install_calls :=
                  install_calls w @ [InstallVersion (fabric_version_id fabric_loader)]\<rparr>
      in case install_version_error en (fabric_version_id fabric_loader) of
           None \<Rightarrow> (None, log_at INFO 255 w)
         | Some e \<Rightarrow>
             (if is_network_error e then (None, log_at INFO 259 (log_at WARNING 258 w))
              else if is_Exception e then (None, log_at WARNING 261 w)
              else (Some e, w)))"

definition read_launch_settings :: "env \<Rightarrow> world \<Rightarrow> (exn + pyval \<times> pyval) \<times> world" where
  \<comment> \<open>launcher.py 263-271: \<open>nickname\<close> and \<open>ram_value\<close>\<close>
  "read_launch_settings en w =
     (case load_config (config_files en) ''config.json'' of
        Inr config_data \<Rightarrow>
          (Inr (dict_get config_data ''nickname'' (PStr USERNAME),
                dict_get config_data ''ram'' (PInt MEMORY_GB)), w)
      | Inl ex \<Rightarrow>
          (if is_Exception ex
           then (Inr (PStr USERNAME, PInt MEMORY_GB), log_at WARNING 269 w)
           else (Inl ex, w)))"

definition dict_literal :: "(string \<times> pyval) list \<Rightarrow> pydict" where
  \<comment> \<open>a \<open>dict\<close> display: the items are stored from left to right, so a key written
      twice keeps its place and the value written last\<close>
  "dict_literal items = foldl (\<lambda>d (k, v). dict_set d k v) [] items"

definition launch_options :: "pyval \<Rightarrow> pyval \<Rightarrow> pydict" where
  \<comment> \<open>launcher.py 273-281\<close>
  "launch_options nickname ram_value =
     dict_literal
       [(''username'', nickname),
        (''username'', PStr USERNAME),
        (''uuid'', PStr []),
        (''token'', PStr []),
        (''executablePath'', PStr ''java''),
        (''jvmArguments'', PList [PStr (''-Xmx'' @ py_str_int (MEMORY_GB * 1024) @ ''M'')]),
        (''launcherVersion'', PStr ''0.0.1'')]"

definition vanilla_failed :: "exn \<Rightarrow> world \<Rightarrow> (exn + string list) \<times> world" where
  \<comment> \<open>launcher.py 311-313: \<open>except Exception as e2\<close> logs and raises \<open>e2\<close> again\<close>
  "vanilla_failed e2 w = (if is_Exception e2 then (Inl e2, log_at ERROR 312 w) else (Inl e2, w))"

definition build_command ::
  "env \<Rightarrow> string \<Rightarrow> pydict \<Rightarrow> world \<Rightarrow> (exn + string list) \<times> world" where
  \<comment> \<open>launcher.py 283-313\<close>
  "build_command en fabric_loader options w =
     (case minecraft_command en (fabric_version_id fabric_loader) options of
        Inr command \<Rightarrow> (Inr command, log_at INFO 290 w)
      | Inl e \<Rightarrow>
          (if is_Exception e
           then
             (let w = log_at INFO 293 (log_at WARNING 292 w);
                  w = w\<lparr>install_calls := install_calls w @ [InstallVersion MINECRAFT_VERSION]\<rparr>
              in case install_version_error en MINECRAFT_VERSION of
                   Some e2 \<Rightarrow> vanilla_failed e2 w
                 | None \<Rightarrow>
                     (case minecraft_command en MINECRAFT_VERSION options of
                        Inl e2 \<Rightarrow> vanilla_failed e2 w
                      | Inr command \<Rightarrow> (Inr command, log_at INFO 310 w)))
           else (Inl e, w)))"

fun drain :: "run \<Rightarrow> world \<Rightarrow> exn option \<times> world" where
  \<comment> \<open>the loop of launcher.py 325-331\<close>
  "drain (Exit code) w = (None, w)"
| "drain (ReadError e) w = (Some e, w)"
| "drain (Read output polled rest) w =
     (if output = [] \<and> polled \<noteq> None then (None, w)
      else if output \<noteq> []
      then drain rest ((log_at INFO 330 w)\<lparr>log_file := log_file w @ [output]\<rparr>)
      else drain rest w)"

definition run_process :: "env \<Rightarrow> string list \<Rightarrow> world \<Rightarrow> exn option \<times> world" where
  \<comment> \<open>launcher.py 315-332\<close>
  "run_process en command w =
     (let w = log_at INFO 315 w
      in case popen en command of
           Inl e \<Rightarrow> (Some e, w)
         | Inr child \<Rightarrow>
             (let w = w\<lparr>game_process := Some command, spawned := spawned w @ [command]\<rparr>
              in case open_log_error en of
                   Some e \<Rightarrow> (Some e, w)
                 | None \<Rightarrow> then_do (drain child w) (\<lambda>w. (None, log_at INFO 332 w))))"

definition launch_body :: "env \<Rightarrow> world \<Rightarrow> exn option \<times> world" where
  \<comment> \<open>launcher.py 214-332, the \<open>try\<close> block after the lock has been given back\<close>
  "launch_body en w =
     then_do (except_Exception WARNING 218
                (ensure_customskinloader en MINECRAFT_DIR MINECRAFT_VERSION LOADER w)) (\<lambda>w.
     then_do (read_username en w) (\<lambda>w.
     then_with (get_fabric_loader_version_safe en w) (\<lambda>fabric_loader w.
     then_do (install_fabric_step en fabric_loader (log_at INFO 232 w)) (\<lambda>w.
     then_do (install_minecraft_step en fabric_loader w) (\<lambda>w.
     then_with (read_launch_settings en w) (\<lambda>(nickname, ram_value) w.
     then_with (build_command en fabric_loader (launch_options nickname ram_value) w)
       (\<lambda>command w.
     run_process en command w)))))))"

text \<open>
  \<open>with game_lock:\<close> waits for the lock. In a single thread a lock that is held is
  never given back, so the call does not return: that is \<open>None\<close>.
\<close>

definition with_game_lock :: "(world \<Rightarrow> 'a \<times> world) \<Rightarrow> world \<Rightarrow> ('a \<times> world) option" where
  "with_game_lock body w =
     (if lock_held w then None
      else (case body (w\<lparr>lock_held := True\<rparr>) of
              (r, w') \<Rightarrow> Some (r, w'\<lparr>lock_held := False\<rparr>)))"

definition check_running :: "world \<Rightarrow> bool \<times> world" where
  \<comment> \<open>launcher.py 209-212; \<open>True\<close> when the function returns here\<close>
  "check_running w =
     (if is_game_running w then (True, log_at WARNING 210 w)
      else (False, w\<lparr>is_game_running := True\<rparr>))"

definition reset_session :: "world \<Rightarrow> unit \<times> world" where
  \<comment> \<open>launcher.py 337-338\<close>
  "reset_session w = ((), w\<lparr>is_game_running := False, game_process := None\<rparr>)"

definition launch_game :: "env \<Rightarrow> world \<Rightarrow> (exn option \<times> world) option" where
  \<comment> \<open>launcher.py 205-338. \<open>Some (None, w)\<close>: it returns; \<open>Some (Some e, w)\<close>: the
      exception \<open>e\<close> leaves it; \<open>w\<close> is the state it leaves behind\<close>
  "launch_game en w =
     (case with_game_lock check_running w of
        None \<Rightarrow> None
      | Some (returned, w) \<Rightarrow>
          (let r = (if returned then (None, w) else launch_body en w);
               r = except_Exception ERROR 334 r
           in case with_game_lock reset_session (snd r) of
                None \<Rightarrow> None
              | Some (u, w) \<Rightarrow> Some (fst r, w)))"

definition config_infinite_width :: filesystem where
  \<comment> \<open>\<open>config.json\<close> holds \<open>{"window_width": 1e999}\<close>, which \<open>json.load\<close> reads as \<open>inf\<close>\<close>
  "config_infinite_width =
     no_files(''config.json'' := Parsed (PDict [(''window_width'', PFloat PosInf)]))"


definition config_ram_999 :: filesystem where
  \<comment> \<open>\<open>config.json\<close> holds \<open>{"ram": 999}\<close>\<close>
  "config_ram_999 = no_files(''config.json'' := Parsed (PDict [(''ram'', PInt 999)]))"




definition idle :: world where
  "idle = \<lparr>is_game_running = False, game_process = None, lock_held = False,
            dirs = Map.empty, install_calls = [], downloads = [], spawned = [],
            log_file = [], log = []\<rparr>"

definition env_offline :: env where
  \<comment> \<open>no network, nothing installed, no Java\<close>
  "env_offline =
     \<lparr>makedirs_error = None,
      registry = Inl ConnectionError,
      download = (\<lambda>u. Inl ConnectionError),
      jar_write = WriteOk,
      config_files = no_files,
      latest_loader = Inl Timeout,
      install_fabric_error = Some ConnectionError,
      install_version_error = (\<lambda>v. Some ConnectionError),
      minecraft_command = (\<lambda>v opts. Inl VersionNotFound),
      popen = (\<lambda>command. Inl OSError),
      open_log_error = None\<rparr>"

definition skin_registry :: "mod_version list" where
  "skin_registry =
     [\<lparr>game_versions = [''1.19.4''], loaders = [''fabric''],
       files = [\<lparr>filename = ''csl-1.19.jar'', url = ''https://cdn/csl-1.19.jar''\<rparr>]\<rparr>,
      \<lparr>game_versions = [''1.20.1''], loaders = [''forge''],
       files = [\<lparr>filename = ''csl-forge.jar'', url = ''https://cdn/csl-forge.jar''\<rparr>]\<rparr>,
      \<lparr>game_versions = [''1.20'', ''1.20.1''], loaders = [''fabric'', ''quilt''],
       files = [\<lparr>filename = ''csl-sources.zip'', url = ''https://cdn/csl-sources.zip''\<rparr>]\<rparr>,
      \<lparr>game_versions = [''1.20.1''], loaders = [''fabric''],
       files = [\<lparr>filename = ''readme.txt'', url = ''https://cdn/readme.txt''\<rparr>,
                \<lparr>filename = ''csl.jar'', url = ''https://cdn/csl.jar''\<rparr>,
                \<lparr>filename = ''csl-extra.jar'', url = ''https://cdn/csl-extra.jar''\<rparr>]\<rparr>]"

definition env_online :: env where
  "env_online =
     env_offline\<lparr>registry := Inr skin_registry,
                 download := (\<lambda>u. Inr ''jar bytes''),
                 latest_loader := Inr ''0.16.0''\<rparr>"





definition world_with_mods :: world where
  "world_with_mods = makedirs ''minecraft/mods'' idle"

definition session_of :: "world \<Rightarrow> bool \<times> bool \<times> string list option \<times> string list list" where
  \<comment> \<open>the part of the state that only the lock sections and the spawn touch\<close>
  "session_of w = (lock_held w, is_game_running w, game_process w, spawned w)"

definition world_running :: world where
  \<comment> \<open>a game session is active\<close>
  "world_running =
     idle\<lparr>is_game_running := True,
          game_process := Some [''java'', ''-jar'', ''minecraft.jar'']\<rparr>"

definition config_alex_8 :: filesystem where
  \<comment> \<open>\<open>config.json\<close> holds \<open>{"nickname": "Alex", "ram": 8}\<close>\<close>
  "config_alex_8 =
     no_files(''config.json'' := Parsed (PDict [(''nickname'', PStr ''Alex''), (''ram'', PInt 8)]))"

definition argv_of :: "string \<Rightarrow> pydict \<Rightarrow> string list" where
  \<comment> \<open>an installer library that puts the options it is given into the command\<close>
  "argv_of version opts =
     (case (map_of opts ''executablePath'', map_of opts ''jvmArguments'',
            map_of opts ''username'') of
        (Some (PStr java), Some (PList [PStr xmx]), Some (PStr user)) \<Rightarrow>
          [java, xmx, version, ''--username'', user]
      | _ \<Rightarrow> [''java'', version])"

definition env_playing :: env where
  \<comment> \<open>everything is installed; the child prints a line and exits with code 1\<close>
  "env_playing =
     env_online\<lparr>config_files := config_alex_8,
                install_fabric_error := None,
                install_version_error := (\<lambda>v. None),
                minecraft_command := (\<lambda>v opts. Inr (argv_of v opts)),
                popen := (\<lambda>command.
                  Inr (Read ''Loading'' None (Read [] None (Read [] (Some 1) (Exit 1)))))\<rparr>"

definition raises_only_Exception :: "env \<Rightarrow> bool" where
  \<comment> \<open>whatever fails before the child is spawned fails with a subclass of \<open>Exception\<close>\<close>
  "raises_only_Exception en \<longleftrightarrow>
     (\<forall>e. makedirs_error en = Some e \<longrightarrow> is_Exception e) \<and>
     (\<forall>e. registry en = Inl e \<longrightarrow> is_Exception e) \<and>
     (\<forall>u e. download en u = Inl e \<longrightarrow> is_Exception e) \<and>
     (\<forall>e. latest_loader en = Inl e \<longrightarrow> is_Exception e) \<and>
     (\<forall>e. install_fabric_error en = Some e \<longrightarrow> is_Exception e) \<and>
     (\<forall>v e. install_version_error en v = Some e \<longrightarrow> is_Exception e) \<and>
     (\<forall>v opts e. minecraft_command en v opts = Inl e \<longrightarrow> is_Exception e)"

definition env_vanilla_only :: env where
  "env_vanilla_only =
     env_online\<lparr>minecraft_command :=
                  (\<lambda>v opts. if v = MINECRAFT_VERSION then Inr [''java'', v]
                            else Inl VersionNotFound),
                install_version_error := (\<lambda>v. None),
                popen := (\<lambda>command. Inr (Exit 0))\<rparr>"

section \<open>Properties of the configuration store\<close>

lemmas config_eval =
  load_config_def load_config_body_def read_json_def validate_loaded_def validate_ram_def
  validate_skin_def validate_nickname_def dict_get_def dict_set_def ram_in_range_def
  DEFAULT_CONFIG_def py_strip_def py_isspace_def


lemma map_of_dict_set: "map_of (dict_set d k v) = (map_of d)(k \<mapsto> v)"
  by (simp add: dict_set_def update_conv')

lemma copy_str_keys_other:
  "k \<notin> set keys \<Longrightarrow> map_of (copy_str_keys keys config v) k = map_of v k"
proof (induction keys arbitrary: v)
  case Nil
  then show ?case by simp
next
  case (Cons key keys)
  then have "map_of (case map_of config key of
          Some (PStr s) \<Rightarrow> dict_set v key (PStr s)
        | _ \<Rightarrow> v) k = map_of v k"
    by (simp add: map_of_dict_set split: option.split pyval.split)
  with Cons show ?case by simp
qed

lemma copy_bool_keys_other:
  "k \<notin> set keys \<Longrightarrow> map_of (copy_bool_keys keys config v) k = map_of v k"
proof (induction keys arbitrary: v)
  case Nil
  then show ?case by simp
next
  case (Cons key keys)
  then have "map_of (case map_of config key of
          Some (PBool s) \<Rightarrow> dict_set v key (PBool s)
        | _ \<Rightarrow> v) k = map_of v k"
    by (simp add: map_of_dict_set split: option.split pyval.split)
  with Cons show ?case by simp
qed

lemma copy_window_keys_other:
  "k \<notin> set keys \<Longrightarrow> copy_window_keys keys config v = Inr c \<Longrightarrow> map_of c k = map_of v k"
proof (induction keys arbitrary: v)
  case Nil
  then show ?case by simp
next
  case (Cons key keys)
  from Cons.prems have k: "k \<noteq> key" "k \<notin> set keys" by auto
  show ?case
  proof (cases "map_of config key")
    case None
    with Cons.prems k Cons.IH show ?thesis by simp
  next
    case (Some x)
    show ?thesis
    proof (cases "num_val x")
      case None
      with Some Cons.prems k Cons.IH show ?thesis by simp
    next
      case (Some y)
      show ?thesis
      proof (cases "py_int x")
        case (Inl e)
        with Some \<open>map_of config key = Some x\<close> Cons.prems show ?thesis by simp
      next
        case (Inr i)
        with Some \<open>map_of config key = Some x\<close> Cons.prems
        have "copy_window_keys keys config (dict_set v key (PInt (max 600 i))) = Inr c"
          by simp
        from Cons.IH [OF k(2) this] k show ?thesis by (simp add: map_of_dict_set)
      qed
    qed
  qed
qed

lemma validate_skin_other: "k \<noteq> ''skin'' \<Longrightarrow> map_of (validate_skin config v) k = map_of v k"
  by (simp add: validate_skin_def Let_def map_of_dict_set split: pyval.split)

lemma validate_nickname_other:
  "k \<noteq> ''nickname'' \<Longrightarrow> map_of (validate_nickname config v) k = map_of v k"
  by (simp add: validate_nickname_def Let_def map_of_dict_set split: pyval.split)

lemma validate_ram_ram:
  "map_of (validate_ram config DEFAULT_CONFIG) ''ram'' =
     Some (if ram_in_range (dict_get config ''ram'' (PInt 4))
           then dict_get config ''ram'' (PInt 4) else PInt 4)"
  by (simp add: validate_ram_def Let_def map_of_dict_set DEFAULT_CONFIG_def)

lemma py_int_errors:
  "py_int x = Inl e \<Longrightarrow> num_val x = Some y \<Longrightarrow> e = ValueError \<or> e = OverflowError"
  by (cases x rule: py_int.cases) auto

lemma copy_window_keys_errors:
  "copy_window_keys keys config v = Inl e \<Longrightarrow> e = ValueError \<or> e = OverflowError"
proof (induction keys arbitrary: v)
  case Nil
  then show ?case by simp
next
  case (Cons key keys)
  show ?case
  proof (cases "map_of config key")
    case None
    with Cons show ?thesis by simp
  next
    case (Some x)
    note x = this
    show ?thesis
    proof (cases "num_val x")
      case None
      with x Cons show ?thesis by simp
    next
      case (Some y)
      show ?thesis
      proof (cases "py_int x")
        case (Inl e')
        with Some x Cons.prems have "e' = e" by simp
        with Inl Some show ?thesis by (auto dest: py_int_errors)
      next
        case (Inr i)
        with Some x Cons.prems
        have "copy_window_keys keys config (dict_set v key (PInt (max 600 i))) = Inl e"
          by simp
        then show ?thesis by (rule Cons.IH)
      qed
    qed
  qed
qed

lemma validate_loaded_errors:
  "validate_loaded config = Inl e \<Longrightarrow> e = ValueError \<or> e = OverflowError"
  unfolding validate_loaded_def Let_def by (rule copy_window_keys_errors)

lemma validate_loaded_ram:
  assumes "validate_loaded config = Inr c"
  shows "map_of c ''ram'' =
     Some (if ram_in_range (dict_get config ''ram'' (PInt 4))
           then dict_get config ''ram'' (PInt 4) else PInt 4)"
proof -
  have notin: "''ram'' \<notin> set [''window_width'', ''window_height'']"
    "''ram'' \<notin> set [''auto_update'']" "''ram'' \<notin> set [''theme'', ''java_path'']"
    by simp_all
  from assms have "map_of c ''ram'' =
      map_of (copy_bool_keys [''auto_update''] config
        (copy_str_keys [''theme'', ''java_path''] config
          (validate_nickname config (validate_skin config (validate_ram config DEFAULT_CONFIG)))))
        ''ram''"
    unfolding validate_loaded_def Let_def by (rule copy_window_keys_other [OF notin(1)])
  also have "\<dots> = map_of (validate_ram config DEFAULT_CONFIG) ''ram''"
    by (simp only: copy_bool_keys_other [OF notin(2)] copy_str_keys_other [OF notin(3)])
       (simp add: validate_skin_other validate_nickname_other)
  finally show ?thesis by (simp only: validate_ram_ram)
qed







text \<open>
  C5. The claim says the memory field is clamped to the range from 2 to 32, so that
  \<open>{"ram": 999}\<close> loads as 32. \<open>load_config\<close> does not clamp: a value outside the
  range leaves the default 4 in place. The counterexample is the claim's own scenario.
\<close>

theorem load_config_ram_999_not_clamped:
  "load_config config_ram_999 ''config.json'' \<noteq> Inr (dict_set DEFAULT_CONFIG ''ram'' (PInt 32))"
  by (simp add: config_ram_999_def no_files_def load_config_def load_config_body_def
      read_json_def validate_loaded_def validate_ram_def validate_skin_def validate_nickname_def
      dict_get_def dict_set_def ram_in_range_def DEFAULT_CONFIG_def py_strip_def py_isspace_def)

text \<open>
  C5, as the code has it. For every configuration object, when \<open>load_config\<close> returns,
  the memory field of the result is the stored value if that is a number between 2 and 32,
  and the default 4 otherwise. For \<open>{"ram": 999}\<close> the result is the default
  configuration, with \<open>ram\<close> equal to 4.
\<close>

theorem load_config_ram_validated:
  assumes "fs config_path = Parsed (PDict config)"
    and "load_config fs config_path = Inr c"
  shows "map_of c ''ram'' =
     Some (if ram_in_range (dict_get config ''ram'' (PInt 4))
           then dict_get config ''ram'' (PInt 4) else PInt 4)"
proof -
  from assms have "validate_loaded config = Inr c"
    by (cases "validate_loaded config")
       (auto simp: load_config_def load_config_body_def read_json_def split: if_splits
          dest: validate_loaded_errors)
  then show ?thesis by (rule validate_loaded_ram)
qed

theorem load_config_ram_validated_witness:
  "config_ram_999 ''config.json'' = Parsed (PDict [(''ram'', PInt 999)]) \<and>
   load_config config_ram_999 ''config.json'' = Inr DEFAULT_CONFIG \<and>
   map_of DEFAULT_CONFIG ''ram'' = Some (PInt 4)"
proof -
  have stored: "config_ram_999 ''config.json'' = Parsed (PDict [(''ram'', PInt 999)])"
    by (simp add: config_ram_999_def)
  have loaded: "load_config config_ram_999 ''config.json'' = Inr DEFAULT_CONFIG"
    by (simp add: config_ram_999_def no_files_def load_config_def load_config_body_def
        read_json_def validate_loaded_def validate_ram_def validate_skin_def
        validate_nickname_def dict_get_def dict_set_def ram_in_range_def DEFAULT_CONFIG_def
        py_strip_def py_isspace_def)
  from load_config_ram_validated [OF stored loaded]
  have "map_of DEFAULT_CONFIG ''ram'' = Some (PInt 4)"
    by (simp add: dict_get_def ram_in_range_def)
  with stored loaded show ?thesis by simp
qed







text \<open>
  C7. The specification says that loading never raises, whatever the file holds. For a
  configuration object whose \<open>window_width\<close> is a float that is not finite,
  \<open>int(config[key])\<close> raises \<open>OverflowError\<close>, which is none of the three classes
  the handler of \<open>load_config\<close> catches: the exception leaves \<open>load_config\<close>.
\<close>

theorem load_config_raises_on_infinite_width:
  "load_config config_infinite_width ''config.json'' = Inl OverflowError"
  by (simp add: config_infinite_width_def no_files_def load_config_def load_config_body_def
      read_json_def validate_loaded_def validate_ram_def validate_skin_def validate_nickname_def
      dict_get_def dict_set_def ram_in_range_def
      DEFAULT_CONFIG_def py_strip_def py_isspace_def)

section \<open>Properties of the launcher\<close>

lemma scan_files_find:
  "scan_files en d fs w =
     map_option (\<lambda>f. install_jar en d f w) (find (\<lambda>f. endswith (filename f) ''.jar'') fs)"
  by (induction fs) simp_all

lemma list_ex_find: "list_ex P xs \<longleftrightarrow> find P xs \<noteq> None"
  by (induction xs) simp_all

lemma scan_versions_select:
  "scan_versions en mods_dir mc_version loader versions w =
     (case select_artifact mc_version loader versions of
        None \<Rightarrow> (None, log_at ERROR 167 w)
      | Some file \<Rightarrow> install_jar en mods_dir file w)"
  by (induction versions)
     (auto simp: select_artifact_def scan_files_find list_ex_find split: option.splits)

lemma install_jar_in_dir:
  assumes "dirs w mods_dir = Some present"
  shows "install_jar en mods_dir file w =
     (if filename file \<in> dom present then (None, log_at INFO 165 w)
      else
        (case download en (url file) of
           Inl e \<Rightarrow> (Some e, (log_at INFO 159 w)\<lparr>downloads := downloads w @ [url file]\<rparr>)
         | Inr content \<Rightarrow>
             (case jar_write en of
                OpenFails \<Rightarrow>
                  (Some OSError, (log_at INFO 159 w)\<lparr>downloads := downloads w @ [url file]\<rparr>)
              | WriteFails \<Rightarrow>
                  (Some OSError,
                   (log_at INFO 159 w)
                     \<lparr>downloads := downloads w @ [url file],
                      dirs := (dirs w)(mods_dir \<mapsto> present(filename file \<mapsto> []))\<rparr>)
              | WriteOk \<Rightarrow>
                  (None,
                   log_at INFO 163
                     ((log_at INFO 159 w)
                        \<lparr>downloads := downloads w @ [url file],
                         dirs := (dirs w)(mods_dir \<mapsto> present(filename file \<mapsto> content))\<rparr>)))))"
  using assms
  by (simp add: install_jar_def save_jar_def then_log_def write_file_def isfile_def
      log_at_def Let_def split: sum.split write_outcome.split)


text \<open>
  C2. The claim says the resolver returns the first fallback entry tagged as a fallback
  result, for every loader family. \<open>get_fabric_loader_version_safe\<close> takes no loader
  family and returns a bare version string: when the registry answers with the string
  that heads the fallback list, the caller receives the same value as when the registry
  times out, so nothing in the result says which of the two happened.
\<close>

theorem fallback_result_carries_no_tag:
  "fst (get_fabric_loader_version_safe env_offline idle) =
   fst (get_fabric_loader_version_safe (env_offline\<lparr>latest_loader := Inr ''0.15.11''\<rparr>) idle)"
  by (simp add: get_fabric_loader_version_safe_def env_offline_def
      FALLBACK_FABRIC_VERSIONS_def)

text \<open>
  C2, amended. If the fetch of the latest Fabric loader version fails with a network
  error (timeout, connection error, TLS error), \<open>get_fabric_loader_version_safe\<close>
  raises nothing and returns the first entry of the fallback list, as a plain version
  string. That the value is a fallback shows only in the log: the call appends the
  messages of lines 183, 189 (the warning), 190 and 195, and changes nothing else.
\<close>

theorem fallback_on_network_error:
  assumes "latest_loader en = Inl e" and "is_network_error e"
  shows "get_fabric_loader_version_safe en w =
     (Inr (FALLBACK_FABRIC_VERSIONS ! 0),
      w\<lparr>log := log w @ [(INFO, 183), (WARNING, 189), (INFO, 190), (INFO, 195)]\<rparr>)"
proof -
  from assms(2) have "is_Exception e" by (cases e) simp_all
  with assms(1) show ?thesis
    by (simp add: get_fabric_loader_version_safe_def FALLBACK_FABRIC_VERSIONS_def log_at_def)
qed

theorem fallback_on_network_error_witness:
  "latest_loader env_offline = Inl Timeout \<and> is_network_error Timeout \<and>
   get_fabric_loader_version_safe env_offline idle =
     (Inr ''0.15.11'',
      idle\<lparr>log := [(INFO, 183), (WARNING, 189), (INFO, 190), (INFO, 195)]\<rparr>)"
proof -
  have failed: "latest_loader env_offline = Inl Timeout" by (simp add: env_offline_def)
  have net: "is_network_error Timeout" by simp
  have "log idle = []" by (simp add: idle_def)
  with fallback_on_network_error [OF failed net, of idle] failed net
  show ?thesis by (simp add: FALLBACK_FABRIC_VERSIONS_def)
qed


text \<open>
  C9. Run on the registry's answer with the mods directory in place, the two nested loops
  of \<open>ensure_customskinloader\<close> do what the specification's selection says. They act
  on the first file whose name ends in \<open>.jar\<close> of the first record that lists the game
  version and the loader and has such a file, skipping every record before it, and log
  an error when there is none. The selected file is left alone when a file of its name is
  in the directory; otherwise its URL is requested and, when the request and the write
  succeed, the content is stored in the directory under the file's name.
\<close>

theorem scan_versions_downloads_first_match:
  assumes "dirs w mods_dir = Some present"
  shows "scan_versions en mods_dir mc_version loader versions w =
     (case select_artifact mc_version loader versions of
        None \<Rightarrow> (None, log_at ERROR 167 w)
      | Some file \<Rightarrow>
          if filename file \<in> dom present then (None, log_at INFO 165 w)
          else
            (case download en (url file) of
               Inl e \<Rightarrow>
                 (Some e, (log_at INFO 159 w)\<lparr>downloads := downloads w @ [url file]\<rparr>)
             | Inr content \<Rightarrow>
                 (case jar_write en of
                    OpenFails \<Rightarrow>
                      (Some OSError,
                       (log_at INFO 159 w)\<lparr>downloads := downloads w @ [url file]\<rparr>)
                  | WriteFails \<Rightarrow>
                      (Some OSError,
                       (log_at INFO 159 w)
                         \<lparr>downloads := downloads w @ [url file],
                          dirs := (dirs w)(mods_dir \<mapsto> present(filename file \<mapsto> []))\<rparr>)
                  | WriteOk \<Rightarrow>
                      (None,
                       log_at INFO 163
                         ((log_at INFO 159 w)
                            \<lparr>downloads := downloads w @ [url file],
                             dirs := (dirs w)(mods_dir \<mapsto>
                                       present(filename file \<mapsto> content))\<rparr>)))))"
proof (cases "select_artifact mc_version loader versions")
  case None
  then show ?thesis by (simp add: scan_versions_select)
next
  case (Some f)
  then show ?thesis
    by (simp only: scan_versions_select option.case install_jar_in_dir [OF assms])
qed

theorem scan_versions_downloads_first_match_witness:
  "dirs world_with_mods ''minecraft/mods'' = Some Map.empty \<and>
   select_artifact ''1.20.1'' ''fabric'' skin_registry =
     Some \<lparr>filename = ''csl.jar'', url = ''https://cdn/csl.jar''\<rparr> \<and>
   fst (scan_versions env_online ''minecraft/mods'' ''1.20.1'' ''fabric'' skin_registry
          world_with_mods) = None \<and>
   downloads (snd (scan_versions env_online ''minecraft/mods'' ''1.20.1'' ''fabric''
       skin_registry world_with_mods)) = [''https://cdn/csl.jar''] \<and>
   dirs (snd (scan_versions env_online ''minecraft/mods'' ''1.20.1'' ''fabric''
       skin_registry world_with_mods)) ''minecraft/mods'' = Some [''csl.jar'' \<mapsto> ''jar bytes'']"
proof -
  have d: "dirs world_with_mods ''minecraft/mods'' = Some Map.empty"
    by (simp add: world_with_mods_def makedirs_def idle_def)
  have sel: "select_artifact ''1.20.1'' ''fabric'' skin_registry =
     Some \<lparr>filename = ''csl.jar'', url = ''https://cdn/csl.jar''\<rparr>"
    by (simp add: select_artifact_def skin_registry_def endswith_def)
  have dl: "download env_online ''https://cdn/csl.jar'' = Inr ''jar bytes''"
    "jar_write env_online = WriteOk"
    by (simp_all add: env_online_def env_offline_def)
  have w: "downloads world_with_mods = []"
    by (simp add: world_with_mods_def makedirs_def idle_def)
  from scan_versions_downloads_first_match
    [OF d, of env_online "''1.20.1''" "''fabric''" skin_registry] d sel
  show ?thesis by (simp add: dl w log_at_def)
qed

lemma log_at_fields [simp]:
  "dirs (log_at l n w) = dirs w" "downloads (log_at l n w) = downloads w"
  by (simp_all add: log_at_def)

lemma isfile_log_at [simp]: "isfile (log_at l n w) d name = isfile w d name"
  by (simp add: isfile_def)

lemma except_Exception_fields [simp]:
  "dirs (snd (except_Exception l n r)) = dirs (snd r)"
  "downloads (snd (except_Exception l n r)) = downloads (snd r)"
  by (simp_all add: except_Exception_def split: option.split)
















lemma session_log_at [simp]: "session_of (log_at l n w) = session_of w"
  by (simp add: session_of_def log_at_def)

lemma session_except [simp]:
  "session_of (snd (except_Exception l n r)) = session_of (snd r)"
  by (simp add: except_Exception_def split: option.split)

lemma session_makedirs [simp]: "session_of (makedirs d w) = session_of w"
  by (simp add: makedirs_def session_of_def split: option.split)

lemma session_write_file [simp]: "session_of (write_file d n c w) = session_of w"
  by (simp add: write_file_def session_of_def split: option.split)

lemma session_install_jar [simp]: "session_of (snd (install_jar en d f w)) = session_of w"
proof -
  have "session_of (w\<lparr>downloads := x\<rparr>) = session_of w" for x w
    by (simp add: session_of_def)
  then show ?thesis
    by (simp add: install_jar_def save_jar_def then_log_def Let_def log_at_def session_of_def
        write_file_def split: sum.split option.split write_outcome.split)
qed

lemma session_scan_files:
  "scan_files en d fs w = Some r \<Longrightarrow> session_of (snd r) = session_of w"
  by (induction fs) (auto split: if_splits)

lemma session_scan_versions [simp]:
  "session_of (snd (scan_versions en d m l vs w)) = session_of w"
  by (induction vs) (auto split: option.split dest: session_scan_files)

lemma session_ensure [simp]:
  "session_of (snd (ensure_customskinloader en d m l w)) = session_of w"
  by (simp add: ensure_customskinloader_def Let_def split: option.split sum.split)

lemma session_read_username [simp]: "session_of (snd (read_username en w)) = session_of w"
  by (simp add: read_username_def split: sum.split)

lemma session_get_fabric [simp]:
  "session_of (snd (get_fabric_loader_version_safe en w)) = session_of w"
  by (simp add: get_fabric_loader_version_safe_def FALLBACK_FABRIC_VERSIONS_def Let_def
      split: sum.split)

lemma session_install_calls [simp]: "session_of (w\<lparr>install_calls := x\<rparr>) = session_of w"
  by (simp add: session_of_def)

lemma session_install_fabric [simp]:
  "session_of (snd (install_fabric_step en l w)) = session_of w"
  by (simp add: install_fabric_step_def Let_def split: option.split)

lemma session_install_minecraft [simp]:
  "session_of (snd (install_minecraft_step en l w)) = session_of w"
  by (simp add: install_minecraft_step_def Let_def split: option.split)

lemma session_read_settings [simp]:
  "session_of (snd (read_launch_settings en w)) = session_of w"
  by (simp add: read_launch_settings_def split: sum.split)

lemma session_build_command [simp]:
  "session_of (snd (build_command en l opts w)) = session_of w"
  by (simp add: build_command_def vanilla_failed_def Let_def split: sum.split option.split)

lemma lock_drain [simp]: "lock_held (snd (drain child w)) = lock_held w"
  by (induction child w rule: drain.induct) (simp_all add: log_at_def)

lemma spawned_drain [simp]: "spawned (snd (drain child w)) = spawned w"
  by (induction child w rule: drain.induct) (simp_all add: log_at_def)

lemma lock_then_do:
  "(\<And>v. lock_held (snd (f v)) = lock_held v) \<Longrightarrow>
   lock_held (snd (then_do r f)) = lock_held (snd r)"
  by (simp add: then_do_def split: option.split)

lemma lock_run_process [simp]: "lock_held (snd (run_process en c w)) = lock_held w"
  by (simp add: run_process_def Let_def lock_then_do log_at_def split: sum.split option.split)

lemma lock_of_session: "session_of w' = session_of w \<Longrightarrow> lock_held w' = lock_held w"
  by (simp add: session_of_def)


lemma lock_held_session: "lock_held w = fst (session_of w)"
  by (simp add: session_of_def)

lemma fst_session_then_do:
  "(\<And>v. fst (session_of (snd (f v))) = fst (session_of v)) \<Longrightarrow>
   fst (session_of (snd (then_do r f))) = fst (session_of (snd r))"
  by (simp add: then_do_def split: option.split)

lemma fst_session_then_with:
  "(\<And>x v. fst (session_of (snd (f x v))) = fst (session_of v)) \<Longrightarrow>
   fst (session_of (snd (then_with r f))) = fst (session_of (snd r))"
  by (simp add: then_with_def split: sum.split)

lemma fst_session_run_process [simp]:
  "fst (session_of (snd (run_process en c w))) = fst (session_of w)"
  using lock_run_process [of en c w] by (simp add: session_of_def)

lemma lock_launch_body: "lock_held (snd (launch_body en w)) = lock_held w"
  unfolding lock_held_session launch_body_def
  by (simp add: fst_session_then_do fst_session_then_with split_beta)


text \<open>
  C4. Whenever \<open>launch_game\<close> ends, by returning or with an exception leaving it, the
  game is marked as not running, the process handle is cleared and the lock is free. It
  does end whenever the lock is free when it is called (for every run of the child that
  ends).
\<close>

theorem launch_game_restores_idle:
  "(launch_game en w = Some (r, w') \<longrightarrow>
      \<not> is_game_running w' \<and> game_process w' = None \<and> \<not> lock_held w')
   \<and> (\<not> lock_held w \<longrightarrow> launch_game en w \<noteq> None)"
proof
  show "launch_game en w = Some (r, w') \<longrightarrow>
      \<not> is_game_running w' \<and> game_process w' = None \<and> \<not> lock_held w'"
    by (auto simp: launch_game_def with_game_lock_def reset_session_def Let_def
        split: option.splits if_splits prod.splits)
next
  show "\<not> lock_held w \<longrightarrow> launch_game en w \<noteq> None"
  proof
    assume free: "\<not> lock_held w"
    have "\<exists>returned w1. with_game_lock check_running w = Some (returned, w1)
        \<and> \<not> lock_held w1"
      using free by (cases "check_running (w\<lparr>lock_held := True\<rparr>)") (simp add: with_game_lock_def)
    then obtain returned w1 where first: "with_game_lock check_running w = Some (returned, w1)"
      and w1: "\<not> lock_held w1"
      by blast
    define r1 where "r1 = (if returned then (None, w1) else launch_body en w1)"
    have "\<not> lock_held (snd r1)"
      using w1 by (simp add: r1_def lock_launch_body)
    then have "\<not> lock_held (snd (except_Exception ERROR 334 r1))"
      by (simp add: lock_held_session)
    then have "with_game_lock reset_session (snd (except_Exception ERROR 334 r1)) \<noteq> None"
      by (simp add: with_game_lock_def split: prod.splits)
    with first show "launch_game en w \<noteq> None"
      by (auto simp: launch_game_def Let_def r1_def)
  qed
qed

theorem launch_game_restores_idle_witness:
  "\<not> lock_held idle \<and>
   map_option (\<lambda>(r, w). (is_game_running w, game_process w, lock_held w))
     (launch_game env_playing idle) = Some (False, None, False)"
proof -
  have free: "\<not> lock_held idle" by (simp add: idle_def)
  with launch_game_restores_idle [of env_playing idle None idle]
  have "launch_game env_playing idle \<noteq> None" by blast
  then obtain r w' where run: "launch_game env_playing idle = Some (r, w')" by auto
  with launch_game_restores_idle [of env_playing idle r w']
  have "\<not> is_game_running w' \<and> game_process w' = None \<and> \<not> lock_held w'" by simp
  with free run show ?thesis by simp
qed

text \<open>
  C1. The specification says that a call made while a session is running is refused
  without touching the session state. The refusal at launcher.py 209-211 is a
  \<open>return\<close> inside the \<open>try\<close> whose \<open>finally\<close> resets the state: the call
  installs nothing and spawns nothing, but it leaves \<open>is_game_running\<close> false and
  \<open>game_process\<close> empty while the first session is still active.
\<close>

theorem launch_game_busy_resets_session:
  "is_game_running world_running \<and>
   game_process world_running = Some [''java'', ''-jar'', ''minecraft.jar''] \<and>
   launch_game env_online world_running =
     Some (None, (log_at WARNING 210 world_running)
                   \<lparr>is_game_running := False, game_process := None\<rparr>)"
  by (simp add: launch_game_def with_game_lock_def check_running_def world_running_def
      idle_def reset_session_def except_Exception_def log_at_def)

text \<open>
  C8. The specification says the run command is composed from the stored configuration.
  \<open>launch_game\<close> reads the nickname and the memory size from the configuration and then
  does not use them: the options name the key \<open>username\<close> twice, so the constant
  \<open>USERNAME\<close> replaces the nickname, and the memory argument is computed from the
  constant \<open>MEMORY_GB\<close>. With the nickname Alex and 8 GB stored, those two values are
  read, and the options, whatever values are read, carry the user TheDocingEast and
  4096 MB.
\<close>

theorem launch_options_ignore_config:
  "fst (read_launch_settings env_playing idle) = Inr (PStr ''Alex'', PInt 8) \<and>
   launch_options nickname ram_value =
     [(''username'', PStr ''TheDocingEast''), (''uuid'', PStr []), (''token'', PStr []),
      (''executablePath'', PStr ''java''), (''jvmArguments'', PList [PStr ''-Xmx4096M'']),
      (''launcherVersion'', PStr ''0.0.1'')]"
proof (intro conjI)
  show "fst (read_launch_settings env_playing idle) = Inr (PStr ''Alex'', PInt 8)"
    by (simp add: read_launch_settings_def env_playing_def config_alex_8_def no_files_def
        config_eval)
  have "py_str_int (MEMORY_GB * 1024) = ''4096''" by code_simp
  then show "launch_options nickname ram_value =
     [(''username'', PStr ''TheDocingEast''), (''uuid'', PStr []), (''token'', PStr []),
      (''executablePath'', PStr ''java''), (''jvmArguments'', PList [PStr ''-Xmx4096M'']),
      (''launcherVersion'', PStr ''0.0.1'')]"
    by (simp add: launch_options_def dict_literal_def dict_set_def USERNAME_def)
qed

lemma load_config_raises_Exception:
  assumes "load_config fs p = Inl e"
  shows "is_Exception e"
proof (cases "fs p")
  case (Parsed v)
  show ?thesis
  proof (cases v)
    case (PDict config)
    show ?thesis
    proof (cases "validate_loaded config")
      case (Inl e')
      then have "e' = ValueError \<or> e' = OverflowError" by (rule validate_loaded_errors)
      with Inl PDict Parsed assms show ?thesis
        by (auto simp: load_config_def load_config_body_def read_json_def)
    next
      case (Inr c)
      with PDict Parsed assms show ?thesis
        by (simp add: load_config_def load_config_body_def read_json_def)
    qed
  qed (use Parsed assms in \<open>simp_all add: load_config_def load_config_body_def read_json_def\<close>)
qed (use assms in \<open>simp_all add: load_config_def load_config_body_def read_json_def\<close>)

lemma read_username_returns: "fst (read_username en w) = None"
  by (auto simp: read_username_def split: sum.split dest: load_config_raises_Exception)

lemma read_launch_settings_returns: "\<exists>n r. fst (read_launch_settings en w) = Inr (n, r)"
  by (auto simp: read_launch_settings_def split: sum.split dest: load_config_raises_Exception)

lemma launch_options_value:
  "launch_options nickname ram_value =
     [(''username'', PStr ''TheDocingEast''), (''uuid'', PStr []), (''token'', PStr []),
      (''executablePath'', PStr ''java''), (''jvmArguments'', PList [PStr ''-Xmx4096M'']),
      (''launcherVersion'', PStr ''0.0.1'')]"
proof -
  have "py_str_int (MEMORY_GB * 1024) = ''4096''" by code_simp
  then show ?thesis
    by (simp add: launch_options_def dict_literal_def dict_set_def USERNAME_def)
qed

lemma launch_options_const: "launch_options n r = launch_options n' r'"
  by (simp only: launch_options_value)

lemma except_Exception_returns:
  "(\<And>e. fst r = Some e \<Longrightarrow> is_Exception e) \<Longrightarrow> fst (except_Exception l n r) = None"
  by (cases "fst r") (simp_all add: except_Exception_def)

lemma install_jar_raises_Exception:
  "raises_only_Exception en \<Longrightarrow> fst (install_jar en d f w) = Some e \<Longrightarrow> is_Exception e"
  by (auto simp: raises_only_Exception_def install_jar_def save_jar_def then_log_def Let_def
      split: if_splits sum.splits option.splits write_outcome.splits)

lemma scan_versions_raises_Exception:
  "raises_only_Exception en \<Longrightarrow> fst (scan_versions en d m l vs w) = Some e \<Longrightarrow> is_Exception e"
  by (auto simp: scan_versions_select split: option.splits dest: install_jar_raises_Exception)

lemma except_Exception_Some:
  "fst (except_Exception l n r) = Some e \<Longrightarrow> fst r = Some e \<and> \<not> is_Exception e"
  by (cases "fst r") (auto simp: except_Exception_def split: if_splits)

lemma skin_step_returns:
  assumes only: "raises_only_Exception en"
  shows "fst (except_Exception WARNING 218 (ensure_customskinloader en d m l w)) = None"
proof (rule except_Exception_returns)
  fix e assume e: "fst (ensure_customskinloader en d m l w) = Some e"
  show "is_Exception e"
  proof (cases "makedirs_error en")
    case (Some e')
    with e only show ?thesis
      by (simp add: ensure_customskinloader_def raises_only_Exception_def)
  next
    case None
    define w0 where "w0 = log_at INFO 148 (makedirs (path_join d ''mods'') w)"
    define r where "r = (case registry en of
        Inl e \<Rightarrow> (Some e, w0)
      | Inr versions \<Rightarrow> scan_versions en (path_join d ''mods'') m l versions w0)"
    from None have "ensure_customskinloader en d m l w = except_Exception ERROR 169 r"
      unfolding r_def w0_def by (simp add: ensure_customskinloader_def Let_def)
    with e have "fst r = Some e" "\<not> is_Exception e"
      using except_Exception_Some [of ERROR 169 r e] by simp_all
    moreover have "is_Exception e"
    proof (cases "registry en")
      case (Inl e')
      with \<open>fst r = Some e\<close> only show ?thesis
        by (simp add: r_def raises_only_Exception_def)
    next
      case (Inr versions)
      with \<open>fst r = Some e\<close> show ?thesis
        using scan_versions_raises_Exception [OF only] by (simp add: r_def)
    qed
    ultimately show ?thesis by simp
  qed
qed

lemma fst_get_fabric:
  "fst (get_fabric_loader_version_safe en w) = fst (get_fabric_loader_version_safe en w0)"
  by (simp add: get_fabric_loader_version_safe_def FALLBACK_FABRIC_VERSIONS_def Let_def
      split: sum.split)

lemma install_fabric_returns:
  "raises_only_Exception en \<Longrightarrow> fst (install_fabric_step en l w) = None"
  by (auto simp: install_fabric_step_def raises_only_Exception_def Let_def split: option.split)

lemma install_minecraft_returns:
  "raises_only_Exception en \<Longrightarrow> fst (install_minecraft_step en l w) = None"
  by (auto simp: install_minecraft_step_def raises_only_Exception_def Let_def
      split: option.split)

lemma then_do_None: "fst r = None \<Longrightarrow> then_do r f = f (snd r)"
  by (simp add: then_do_def)

lemma then_with_Inr: "fst r = Inr x \<Longrightarrow> then_with r f = f x (snd r)"
  by (simp add: then_with_def)

lemma launch_body_reaches_command:
  assumes only: "raises_only_Exception en"
    and loader: "fst (get_fabric_loader_version_safe en w0) = Inr fabric_loader"
  shows "\<exists>w6. session_of w6 = session_of w \<and>
     launch_body en w =
       then_with (build_command en fabric_loader (launch_options nickname ram_value) w6)
         (run_process en)"
proof -
  define w1 where "w1 = snd (except_Exception WARNING 218
      (ensure_customskinloader en MINECRAFT_DIR MINECRAFT_VERSION LOADER w))"
  define w2 where "w2 = snd (read_username en w1)"
  define w3 where "w3 = snd (get_fabric_loader_version_safe en w2)"
  define w4 where "w4 = snd (install_fabric_step en fabric_loader (log_at INFO 232 w3))"
  define w5 where "w5 = snd (install_minecraft_step en fabric_loader w4)"
  define w6 where "w6 = snd (read_launch_settings en w5)"
  have s: "session_of w6 = session_of w"
    by (simp add: w6_def w5_def w4_def w3_def w2_def w1_def)
  have l: "fst (get_fabric_loader_version_safe en w2) = Inr fabric_loader"
    using loader fst_get_fabric [of en w2 w0] by simp
  obtain n r where nr: "fst (read_launch_settings en w5) = Inr (n, r)"
    using read_launch_settings_returns by blast
  have "launch_body en w =
      then_with (build_command en fabric_loader (launch_options n r) w6) (run_process en)"
    unfolding launch_body_def
    by (simp add: then_do_None [OF skin_step_returns [OF only]] w1_def [symmetric]
        then_do_None [OF read_username_returns] w2_def [symmetric]
        then_with_Inr [OF l] w3_def [symmetric]
        then_do_None [OF install_fabric_returns [OF only]] w4_def [symmetric]
        then_do_None [OF install_minecraft_returns [OF only]] w5_def [symmetric]
        then_with_Inr [OF nr] w6_def [symmetric])
  with s launch_options_const [of n r nickname ram_value] show ?thesis by auto
qed


lemma launch_game_unfold:
  assumes free: "\<not> lock_held w" and idle: "\<not> is_game_running w"
  shows "\<exists>w1 w'. session_of w1 = (False, True, game_process w, spawned w) \<and>
     launch_game en w = Some (fst (except_Exception ERROR 334 (launch_body en w1)), w') \<and>
     spawned w' = spawned (snd (except_Exception ERROR 334 (launch_body en w1))) \<and>
     log w' = log (snd (except_Exception ERROR 334 (launch_body en w1))) \<and>
     install_calls w' = install_calls (snd (except_Exception ERROR 334 (launch_body en w1)))"
proof -
  define w1 where "w1 = w\<lparr>lock_held := True, is_game_running := True, lock_held := False\<rparr>"
  define r where "r = except_Exception ERROR 334 (launch_body en w1)"
  have first: "with_game_lock check_running w = Some (False, w1)"
    using free idle by (simp add: with_game_lock_def check_running_def w1_def)
  have "fst (session_of (snd r)) = fst (session_of w1)"
    unfolding r_def using lock_launch_body [of en w1] by (simp add: lock_held_session)
  then have lock: "\<not> lock_held (snd r)"
    by (simp add: session_of_def w1_def)
  define w' where "w' = (snd r)\<lparr>lock_held := True, is_game_running := False,
      game_process := None, lock_held := False\<rparr>"
  have last: "with_game_lock reset_session (snd r) = Some ((), w')"
    using lock by (simp add: with_game_lock_def reset_session_def w'_def)
  have "launch_game en w = Some (fst r, w')"
    using first last by (simp add: launch_game_def Let_def r_def [symmetric])
  moreover have "session_of w1 = (False, True, game_process w, spawned w)"
    by (simp add: session_of_def w1_def)
  moreover have "spawned w' = spawned (snd r)" "log w' = log (snd r)"
    "install_calls w' = install_calls (snd r)"
    by (simp_all add: w'_def)
  ultimately show ?thesis unfolding r_def by blast
qed

lemma spawned_run_process:
  "spawned (snd (run_process en c w)) =
     (case popen en c of Inl x \<Rightarrow> spawned w | Inr child \<Rightarrow> spawned w @ [c])"
  by (simp add: run_process_def then_do_def log_at_def Let_def
      split: sum.split option.split)

lemma build_command_failed:
  assumes only: "raises_only_Exception en"
    and fabric: "minecraft_command en (fabric_version_id l) opts = Inl e"
    and vanilla: "install_version_error en MINECRAFT_VERSION = Some e2 \<or>
      (install_version_error en MINECRAFT_VERSION = None \<and>
       minecraft_command en MINECRAFT_VERSION opts = Inl e2)"
  shows "fst (build_command en l opts w) = Inl e2 \<and> is_Exception e2 \<and>
     (ERROR, 312) \<in> set (log (snd (build_command en l opts w))) \<and>
     InstallVersion MINECRAFT_VERSION \<in> set (install_calls (snd (build_command en l opts w)))"
proof -
  from only fabric have e: "is_Exception e" by (auto simp: raises_only_Exception_def)
  from only vanilla have e2: "is_Exception e2" by (auto simp: raises_only_Exception_def)
  from vanilla show ?thesis
    by (auto simp: build_command_def vanilla_failed_def fabric e e2 Let_def log_at_def)
qed

lemma build_command_vanilla:
  assumes only: "raises_only_Exception en"
    and fabric: "minecraft_command en (fabric_version_id l) opts = Inl e"
    and vanilla: "install_version_error en MINECRAFT_VERSION = None"
      "minecraft_command en MINECRAFT_VERSION opts = Inr command"
  shows "fst (build_command en l opts w) = Inr command"
proof -
  from only fabric have e: "is_Exception e" by (auto simp: raises_only_Exception_def)
  then show ?thesis
    by (simp add: build_command_def fabric vanilla Let_def)
qed

lemma launch_game_when_vanilla_fails:
  assumes only: "raises_only_Exception en"
    and free: "\<not> lock_held w" and idle: "\<not> is_game_running w"
    and loader: "fst (get_fabric_loader_version_safe en w) = Inr fabric_loader"
    and fabric: "minecraft_command en (fabric_version_id fabric_loader)
        (launch_options nickname ram_value) = Inl e"
    and v: "install_version_error en MINECRAFT_VERSION = Some e2 \<or>
      (install_version_error en MINECRAFT_VERSION = None \<and>
       minecraft_command en MINECRAFT_VERSION (launch_options nickname ram_value) = Inl e2)"
  shows "\<exists>w'. launch_game en w = Some (None, w') \<and> spawned w' = spawned w \<and>
      InstallVersion MINECRAFT_VERSION \<in> set (install_calls w') \<and>
      (ERROR, 312) \<in> set (log w') \<and> (ERROR, 334) \<in> set (log w')"
proof -
  define opts where "opts = launch_options nickname ram_value"
  obtain w1 w' where w1: "session_of w1 = (False, True, game_process w, spawned w)"
    and run: "launch_game en w =
       Some (fst (except_Exception ERROR 334 (launch_body en w1)), w')"
    and w': "spawned w' = spawned (snd (except_Exception ERROR 334 (launch_body en w1)))"
      "log w' = log (snd (except_Exception ERROR 334 (launch_body en w1)))"
      "install_calls w' = install_calls (snd (except_Exception ERROR 334 (launch_body en w1)))"
    using launch_game_unfold [OF free idle, of en] by blast
  obtain w6 where w6: "session_of w6 = session_of w1"
    and body: "launch_body en w1 =
      then_with (build_command en fabric_loader opts w6) (run_process en)"
    using launch_body_reaches_command [OF only loader, of w1 nickname ram_value]
    unfolding opts_def by blast
  define b where "b = build_command en fabric_loader opts w6"
  have "session_of (snd b) = session_of w1"
    unfolding b_def using w6 by simp
  then have spawned_b: "spawned (snd b) = spawned w"
    using w1 by (simp add: session_of_def)
  from build_command_failed [OF only fabric [folded opts_def] v [folded opts_def], of w6]
  have fb: "fst b = Inl e2" and e2: "is_Exception e2"
    and logged: "(ERROR, 312) \<in> set (log (snd b))"
    and called: "InstallVersion MINECRAFT_VERSION \<in> set (install_calls (snd b))"
    unfolding b_def by simp_all
  from fb have "launch_body en w1 = (Some e2, snd b)"
    unfolding body b_def [symmetric] by (simp add: then_with_def)
  with e2 have "except_Exception ERROR 334 (launch_body en w1) =
      (None, log_at ERROR 334 (snd b))"
    by (simp add: except_Exception_def)
  with run w' spawned_b logged called show ?thesis
    by (simp add: log_at_def)
qed

lemma env_offline_only_Exception: "raises_only_Exception env_offline"
  by (simp add: raises_only_Exception_def env_offline_def)

text \<open>
  C3. The claim says that when the vanilla retry fails too, the error is reported to the
  caller of the launch, propagating out instead of being absorbed. The \<open>raise e2\<close> of
  launcher.py 313 leaves the inner \<open>try\<close> only: the handler of \<open>launch_game\<close> at line 333
  catches it and logs it, and \<open>launch_game\<close> returns as it does after a game. With no
  network and no installed version, both constructions fail and the call returns
  normally.
\<close>

theorem vanilla_failure_is_not_reported:
  "minecraft_command env_offline (fabric_version_id ''0.15.11'')
     (launch_options (PStr USERNAME) (PInt MEMORY_GB)) = Inl VersionNotFound \<and>
   install_version_error env_offline MINECRAFT_VERSION = Some ConnectionError \<and>
   map_option fst (launch_game env_offline idle) = Some None"
proof -
  have free: "\<not> lock_held idle" "\<not> is_game_running idle" by (simp_all add: idle_def)
  have loader: "fst (get_fabric_loader_version_safe env_offline idle) = Inr ''0.15.11''"
    by (simp add: get_fabric_loader_version_safe_def env_offline_def
        FALLBACK_FABRIC_VERSIONS_def)
  have fabric: "minecraft_command env_offline (fabric_version_id ''0.15.11'')
     (launch_options (PStr USERNAME) (PInt MEMORY_GB)) = Inl VersionNotFound"
    by (simp add: env_offline_def)
  have vanilla: "install_version_error env_offline MINECRAFT_VERSION = Some ConnectionError"
    by (simp add: env_offline_def)
  from launch_game_when_vanilla_fails
    [OF env_offline_only_Exception free loader fabric disjI1 [OF vanilla]]
  obtain w' where "launch_game env_offline idle = Some (None, w')" by blast
  with fabric vanilla show ?thesis by simp
qed

text \<open>
  C3, amended. Let nothing before the spawn fail with anything but a subclass of
  \<open>Exception\<close>, and let the command for the Fabric version fail. Then \<open>launch_game\<close>
  installs the vanilla version and builds the command for it. If both succeed, the launch
  goes on with the vanilla command, which is spawned if \<open>Popen\<close> succeeds. If the
  vanilla installation or the vanilla command fails, the error is logged at lines 312 and
  334 and absorbed: \<open>launch_game\<close> returns normally and no process is spawned.
\<close>

theorem vanilla_retry_failure_is_absorbed:
  assumes only: "raises_only_Exception en"
    and free: "\<not> lock_held w" and idle: "\<not> is_game_running w"
    and loader: "fst (get_fabric_loader_version_safe en w) = Inr fabric_loader"
    and fabric: "minecraft_command en (fabric_version_id fabric_loader)
        (launch_options nickname ram_value) = Inl e"
  shows "(install_version_error en MINECRAFT_VERSION = None \<and>
          minecraft_command en MINECRAFT_VERSION (launch_options nickname ram_value)
            = Inr command \<longrightarrow>
            (\<exists>r w'. launch_game en w = Some (r, w') \<and>
               spawned w' = (case popen en command of
                               Inl x \<Rightarrow> spawned w
                             | Inr child \<Rightarrow> spawned w @ [command])))
       \<and> (install_version_error en MINECRAFT_VERSION = Some e2 \<or>
          (install_version_error en MINECRAFT_VERSION = None \<and>
           minecraft_command en MINECRAFT_VERSION (launch_options nickname ram_value)
             = Inl e2) \<longrightarrow>
            (\<exists>w'. launch_game en w = Some (None, w') \<and> spawned w' = spawned w \<and>
               InstallVersion MINECRAFT_VERSION \<in> set (install_calls w') \<and>
               (ERROR, 312) \<in> set (log w') \<and> (ERROR, 334) \<in> set (log w')))"
proof -
  define opts where "opts = launch_options nickname ram_value"
  obtain w1 w' where w1: "session_of w1 = (False, True, game_process w, spawned w)"
    and run: "launch_game en w =
       Some (fst (except_Exception ERROR 334 (launch_body en w1)), w')"
    and w': "spawned w' = spawned (snd (except_Exception ERROR 334 (launch_body en w1)))"
      "log w' = log (snd (except_Exception ERROR 334 (launch_body en w1)))"
      "install_calls w' = install_calls (snd (except_Exception ERROR 334 (launch_body en w1)))"
    using launch_game_unfold [OF free idle, of en] by blast
  obtain w6 where w6: "session_of w6 = session_of w1"
    and body: "launch_body en w1 =
      then_with (build_command en fabric_loader opts w6) (run_process en)"
    using launch_body_reaches_command [OF only loader, of w1 nickname ram_value]
    unfolding opts_def by blast
  define b where "b = build_command en fabric_loader opts w6"
  have sb: "session_of (snd b) = session_of w1"
    unfolding b_def using w6 by simp
  then have spawned_b: "spawned (snd b) = spawned w"
    using w1 by (simp add: session_of_def)
  have success: "\<exists>r w'. launch_game en w = Some (r, w') \<and>
      spawned w' = (case popen en command of
                      Inl x \<Rightarrow> spawned w | Inr child \<Rightarrow> spawned w @ [command])"
    if v: "install_version_error en MINECRAFT_VERSION = None"
      "minecraft_command en MINECRAFT_VERSION opts = Inr command"
  proof -
    have "fst b = Inr command"
      unfolding b_def
      by (rule build_command_vanilla [OF only fabric [folded opts_def] v])
    then have "launch_body en w1 = run_process en command (snd b)"
      unfolding body b_def [symmetric] by (simp add: then_with_def)
    then have "spawned (snd (except_Exception ERROR 334 (launch_body en w1))) =
        (case popen en command of Inl x \<Rightarrow> spawned w | Inr child \<Rightarrow> spawned w @ [command])"
      using spawned_b
      by (simp add: spawned_run_process except_Exception_def log_at_def
          split: option.split sum.split)
    with run w'(1) show ?thesis by simp
  qed
  have failure: "\<exists>w'. launch_game en w = Some (None, w') \<and> spawned w' = spawned w \<and>
      InstallVersion MINECRAFT_VERSION \<in> set (install_calls w') \<and>
      (ERROR, 312) \<in> set (log w') \<and> (ERROR, 334) \<in> set (log w')"
    if v: "install_version_error en MINECRAFT_VERSION = Some e2 \<or>
      (install_version_error en MINECRAFT_VERSION = None \<and>
       minecraft_command en MINECRAFT_VERSION opts = Inl e2)"
    using launch_game_when_vanilla_fails [OF only free idle loader fabric v [unfolded opts_def]]
    by simp
  from success failure show ?thesis unfolding opts_def by blast
qed

theorem vanilla_retry_failure_is_absorbed_witness:
  "raises_only_Exception env_vanilla_only \<and> \<not> lock_held idle \<and> \<not> is_game_running idle \<and>
   fst (get_fabric_loader_version_safe env_vanilla_only idle) = Inr ''0.16.0'' \<and>
   minecraft_command env_vanilla_only (fabric_version_id ''0.16.0'')
     (launch_options PNone PNone) = Inl VersionNotFound \<and>
   map_option (\<lambda>(r, w). spawned w) (launch_game env_vanilla_only idle)
     = Some [[''java'', ''1.20.1'']] \<and>
   raises_only_Exception env_offline \<and>
   map_option (\<lambda>(r, w). (r, spawned w)) (launch_game env_offline idle) = Some (None, [])"
proof -
  have only: "raises_only_Exception env_vanilla_only"
    by (simp add: raises_only_Exception_def env_vanilla_only_def env_online_def
        env_offline_def)
  have free: "\<not> lock_held idle" "\<not> is_game_running idle" by (simp_all add: idle_def)
  have loader: "fst (get_fabric_loader_version_safe env_vanilla_only idle) = Inr ''0.16.0''"
    by (simp add: get_fabric_loader_version_safe_def env_vanilla_only_def env_online_def)
  have fabric: "minecraft_command env_vanilla_only (fabric_version_id ''0.16.0'')
     (launch_options PNone PNone) = Inl VersionNotFound"
    by (simp add: env_vanilla_only_def fabric_version_id_def MINECRAFT_VERSION_def)
  have vanilla: "install_version_error env_vanilla_only MINECRAFT_VERSION = None"
    "minecraft_command env_vanilla_only MINECRAFT_VERSION (launch_options PNone PNone)
       = Inr [''java'', ''1.20.1'']"
    by (simp_all add: env_vanilla_only_def MINECRAFT_VERSION_def)
  have spawn: "popen env_vanilla_only [''java'', ''1.20.1''] = Inr (Exit 0)"
    by (simp add: env_vanilla_only_def)
  from vanilla_retry_failure_is_absorbed
    [OF only free loader fabric, of "[''java'', ''1.20.1'']" undefined] vanilla
  obtain r w' where run: "launch_game env_vanilla_only idle = Some (r, w')"
    and sp: "spawned w' = (case popen env_vanilla_only [''java'', ''1.20.1''] of
               Inl x \<Rightarrow> spawned idle | Inr child \<Rightarrow> spawned idle @ [[''java'', ''1.20.1'']])"
    by blast
  have first: "map_option (\<lambda>(r, w). spawned w) (launch_game env_vanilla_only idle)
     = Some [[''java'', ''1.20.1'']]"
    using run sp spawn by (simp add: idle_def)
  have loader2: "fst (get_fabric_loader_version_safe env_offline idle) = Inr ''0.15.11''"
    by (simp add: get_fabric_loader_version_safe_def env_offline_def
        FALLBACK_FABRIC_VERSIONS_def)
  have fabric2: "minecraft_command env_offline (fabric_version_id ''0.15.11'')
     (launch_options PNone PNone) = Inl VersionNotFound"
    by (simp add: env_offline_def)
  have vanilla2: "install_version_error env_offline MINECRAFT_VERSION = Some ConnectionError"
    by (simp add: env_offline_def)
  from vanilla_retry_failure_is_absorbed
    [OF env_offline_only_Exception free loader2 fabric2, of undefined ConnectionError] vanilla2
  obtain w2 where run2: "launch_game env_offline idle = Some (None, w2)"
    and sp2: "spawned w2 = spawned idle"
    by blast
  have second: "map_option (\<lambda>(r, w). (r, spawned w)) (launch_game env_offline idle)
     = Some (None, [])"
    using run2 sp2 by (simp add: idle_def)
  from only free loader fabric first env_offline_only_Exception second
  show ?thesis by simp
qed

end
